theory Spec2Isabelle
  imports Main "HOL-Library.Word" "HOL-Library.Sublist" "HOL-Library.Multiset"
begin

section \<open>The Go library functions the binder calls\<close>

text \<open>
  The repository is a single Go package \<open>env\<close> whose entry point \<open>Parse\<close> fills the
  fields of a struct from environment variables, driven by the \<open>env\<close> struct tag.
  Two revisions of the package are embedded here, function by function:
  \<open>src/env.go\<close> (\<open>Parse\<close>, \<open>parseSlice\<close>, \<open>parseTag\<close>) and the revision in
  \<open>src/unnamed/part_000\<close>, lines 95 to 283 (\<open>Parse\<close>, \<open>parseStruct\<close>, \<open>parseTag\<close>,
  \<open>setField\<close>, \<open>parseSlice\<close>), whose constants carry the suffix \<open>_p0\<close> where the
  name is shared with \<open>src/env.go\<close>.

  Go strings are byte sequences, modelled by \<open>string\<close>. The functions of \<open>strings\<close>,
  \<open>strconv\<close> and \<open>os\<close> that the package calls are written out below, as far as the
  package uses them: \<open>Split\<close> only with the separator \<open>","\<close>, \<open>SplitN\<close> only with
  \<open>"="\<close> and the limit 2, \<open>ParseInt\<close> only in base 10 with 64 bits, and \<open>Atoi\<close> for
  the 64-bit \<open>int\<close> of the platforms Go targets by default.
\<close>

subsection \<open>strings\<close>

fun Split :: "string \<Rightarrow> string list" where
  "Split [] = [[]]"
| "Split (c # cs) =
     (if c = CHR '','' then [] # Split cs
      else (case Split cs of [] \<Rightarrow> [[c]] | p # ps \<Rightarrow> (c # p) # ps))"

definition SplitN2 :: "string \<Rightarrow> string list" where
  \<comment> \<open>\<open>strings.SplitN(s, "=", 2)\<close>: cut at the first \<open>=\<close>, if there is one.\<close>
  "SplitN2 s =
     (case dropWhile (\<lambda>c. c \<noteq> CHR ''='') s of
        [] \<Rightarrow> [s]
      | _ # rest \<Rightarrow> [takeWhile (\<lambda>c. c \<noteq> CHR ''='') s, rest])"

definition HasPrefix :: "string \<Rightarrow> string \<Rightarrow> bool" where
  "HasPrefix s p = prefix p s"

fun Join :: "string list \<Rightarrow> string" where
  \<comment> \<open>\<open>strings.Join(xs, ",")\<close>; used to write an annotation from its segments.\<close>
  "Join [] = []"
| "Join [x] = x"
| "Join (x # y # ys) = x @ CHR '','' # Join (y # ys)"

subsection \<open>strconv\<close>

datatype NumErr = ErrSyntax | ErrRange

datatype NumError = NumError (Func: string) (Num: string) (Err: NumErr)

definition isDigit :: "char \<Rightarrow> bool" where
  "isDigit c = (48 \<le> (of_char c :: nat) \<and> (of_char c :: nat) \<le> 57)"

definition maxUint64 :: nat where
  "maxUint64 = 18446744073709551615"

fun ParseUint_loop :: "nat \<Rightarrow> string \<Rightarrow> NumErr + nat" where
  \<comment> \<open>The digit loop of \<open>strconv.ParseUint(s, 10, 64)\<close>, \<open>n\<close> the value read so far.\<close>
  "ParseUint_loop n [] = Inr n"
| "ParseUint_loop n (c # cs) =
     (if \<not> isDigit c then Inl ErrSyntax
      else if n \<ge> maxUint64 div 10 + 1 then Inl ErrRange
      else (let n1 = n * 10 + (of_char c - 48)
            in if n1 > maxUint64 then Inl ErrRange else ParseUint_loop n1 cs))"

definition ParseUint :: "string \<Rightarrow> NumErr + nat" where
  "ParseUint s = (if s = [] then Inl ErrSyntax else ParseUint_loop 0 s)"

definition ParseInt :: "string \<Rightarrow> NumError + int" where
  \<comment> \<open>\<open>strconv.ParseInt(s, 10, 64)\<close>.\<close>
  "ParseInt s =
     (case s of
        [] \<Rightarrow> Inl (NumError ''ParseInt'' s ErrSyntax)
      | c # cs \<Rightarrow>
          (let neg = (c = CHR ''-'');
               digits = (if c = CHR ''+'' \<or> c = CHR ''-'' then cs else s)
           in case ParseUint digits of
                Inl k \<Rightarrow> Inl (NumError ''ParseInt'' s k)
              | Inr un \<Rightarrow>
                  if \<not> neg \<and> un \<ge> 2 ^ 63 then Inl (NumError ''ParseInt'' s ErrRange)
                  else if neg \<and> un > 2 ^ 63 then Inl (NumError ''ParseInt'' s ErrRange)
                  else Inr (if neg then - int un else int un)))"

definition Atoi :: "string \<Rightarrow> NumError + int" where
  \<comment> \<open>\<open>strconv.Atoi\<close>: \<open>ParseInt(s, 10, 0)\<close> with the error's \<open>Func\<close> renamed; its fast
      path for short strings computes the same result.\<close>
  "Atoi s =
     (case ParseInt s of
        Inl ne \<Rightarrow> Inl (NumError ''Atoi'' (Num ne) (Err ne))
      | Inr i \<Rightarrow> Inr i)"

definition ParseBool :: "string \<Rightarrow> NumError + bool" where
  "ParseBool s =
     (if s \<in> set [''1'', ''t'', ''T'', ''TRUE'', ''true'', ''True''] then Inr True
      else if s \<in> set [''0'', ''f'', ''F'', ''FALSE'', ''false'', ''False''] then Inr False
      else Inl (NumError ''ParseBool'' s ErrSyntax))"

subsection \<open>os\<close>

type_synonym environ = "string \<rightharpoonup> string"

definition LookupEnv :: "environ \<Rightarrow> string \<Rightarrow> string \<times> bool" where
  "LookupEnv env k = (case env k of None \<Rightarrow> ([], False) | Some v \<Rightarrow> (v, True))"

definition Getenv :: "environ \<Rightarrow> string \<Rightarrow> string" where
  "Getenv env k = fst (LookupEnv env k)"

section \<open>Records, fields and annotations\<close>

text \<open>
  \<open>Parse\<close> sees its argument through \<open>reflect\<close>. A value is modelled together with
  what reflection reports of its type: its kind, the element type of a slice, the
  pointee type of a nil pointer. A struct type is abstracted to its number of fields
  (all that is read of the type behind a nil pointer), a nil slice and an empty slice
  are both the empty list, and a pointer owns its pointee (no two fields of a record
  share one). \<open>'f\<close> is the type of floating-point values, which are not interpreted.

  A defined type (\<open>type MyString string\<close>) is \<open>TDefined\<close> of its underlying type where
  the package can tell the two apart, which is as the element type of a slice:
  \<open>parseSlice\<close> builds a \<open>[]string\<close> or a \<open>[]int\<close> from the element type's kind, and
  \<open>reflect.Value.Set\<close> panics when that is not assignable to the field, as for a field
  of type \<open>[]MyString\<close>. The value of a field of a defined type is written as a value of
  the underlying type: \<open>Kind\<close>, \<open>SetString\<close>, \<open>SetInt\<close>, \<open>SetBool\<close> and \<open>SetFloat\<close> do
  not tell them apart, and a \<open>[]string\<close> is assignable to a field of a defined slice
  type over \<open>string\<close>.
\<close>

datatype intkind = KInt | KInt8 | KInt16 | KInt32 | KInt64

datatype floatkind = KFloat32 | KFloat64

datatype otherkind =
    KUint | KUint8 | KUint16 | KUint32 | KUint64 | KUintptr
  | KComplex64 | KComplex128 | KArray | KChan | KFunc | KInterface | KMap
  | KUnsafePointer

datatype gotype =
    TString
  | TInt intkind
  | TBool
  | TFloat floatkind
  | TSlice gotype
  | TPtr gotype
  | TStruct nat
  | TOther otherkind
  | TDefined gotype

datatype 'f gval =
    VString string
  | VInt intkind int
  | VBool bool
  | VFloat floatkind 'f
  | VSlice gotype "'f gval list"
  | VStruct "'f sfield list"
  | VNilPtr gotype
  | VPtr "'f gval"
  | VOther otherkind
and 'f sfield =
    SField (Name: string) (Exported: bool) (TagEnv: "string option") (Val: "'f gval")

fun underlying :: "gotype \<Rightarrow> gotype" where
  \<comment> \<open>The type whose kind \<open>Kind()\<close> reports.\<close>
  "underlying (TDefined t) = underlying t"
| "underlying t = t"

text \<open>
  \<open>TagEnv f\<close> is what \<open>field.Tag.Lookup("env")\<close> returns for the field: \<open>None\<close>
  when the struct tag has no \<open>env\<close> key, otherwise the annotation text.
\<close>

fun typeof :: "'f gval \<Rightarrow> gotype" where
  "typeof (VString _) = TString"
| "typeof (VInt k _) = TInt k"
| "typeof (VBool _) = TBool"
| "typeof (VFloat k _) = TFloat k"
| "typeof (VSlice t _) = TSlice t"
| "typeof (VStruct fs) = TStruct (length fs)"
| "typeof (VNilPtr t) = TPtr t"
| "typeof (VPtr v) = TPtr (typeof v)"
| "typeof (VOther k) = TOther k"

record Tag =
  Env :: string
  Optional :: bool
  Default :: string

definition Tag0 :: Tag where
  \<comment> \<open>The zero value \<open>Tag{}\<close>.\<close>
  "Tag0 = \<lparr>Env = [], Optional = False, Default = []\<rparr>"

datatype error =
    EmptyTag
  | InvalidUseOfDefault string
  | ErrorParsingField string error
  | MissingRequiredEnv string
  | ErrorParsingSliceField string error
  | ErrorParsingIntField string NumError
  | ErrorParsingIntSlice NumError
  | UnsupportedSliceType gotype
  | InputMustBeNonNilPointer
  | ValueMustBeStruct
  | InvalidTagFormat string error
  | RequiredNotSet string
  | FailedToSetField string error
  | TagMustNotBeEmpty
  | TagMustHaveName
  | DefaultMustHaveValue
  | UnknownTagOption string
  | CannotSetFieldValue
  | CannotParseInt string NumError
  | CannotParseBool string NumError
  | CannotParseFloat string NumError
  | UnsupportedFieldType gotype
  | UnsupportedSliceElemType gotype

text \<open>
  One constructor for each error message of the two revisions: the first eight are
  those of \<open>src/env.go\<close>, the others those of \<open>src/unnamed/part_000\<close>. An argument
  is what the message is formatted from; a wrapped error (\<open>%w\<close>) is an argument of
  type \<open>error\<close> or \<open>NumError\<close>.
\<close>

datatype outcome = Return "error option" | Panic

text \<open>
  How a call ends: it returns \<open>nil\<close> (\<open>Return None\<close>) or an error, or it panics.
\<close>

section \<open>src/env.go\<close>

fun parseInts :: "string list \<Rightarrow> NumError + int list" where
  \<comment> \<open>The loop of \<open>parseSlice\<close> over the elements: the first \<open>Atoi\<close> error ends it.\<close>
  "parseInts [] = Inr []"
| "parseInts (v # vs) =
     (case Atoi v of
        Inl ne \<Rightarrow> Inl ne
      | Inr i \<Rightarrow> (case parseInts vs of Inl ne \<Rightarrow> Inl ne | Inr is \<Rightarrow> Inr (i # is)))"

definition parseSlice :: "string \<Rightarrow> gotype \<Rightarrow> error + 'f gval" where
  "parseSlice str elemType =
     (case underlying elemType of
        TString \<Rightarrow> Inr (VSlice TString (map VString (Split str)))
      | TInt KInt \<Rightarrow>
          (case parseInts (Split str) of
             Inl ne \<Rightarrow> Inl (ErrorParsingIntSlice ne)
           | Inr res \<Rightarrow> Inr (VSlice (TInt KInt) (map (VInt KInt) res)))
      | _ \<Rightarrow> Inl (UnsupportedSliceType elemType))"

fun tagOptions :: "bool \<Rightarrow> string \<Rightarrow> string list \<Rightarrow> error + bool \<times> string" where
  \<comment> \<open>The loop of \<open>parseTag\<close> over \<open>parts[1:]\<close>, from the current \<open>opt\<close> and \<open>def\<close>.\<close>
  "tagOptions opt def [] = Inr (opt, def)"
| "tagOptions opt def (p # ps) =
     (if p = ''optional'' then tagOptions True def ps
      else if HasPrefix p ''default'' then
        (case SplitN2 p of
           [_, d] \<Rightarrow> tagOptions opt d ps
         | _ \<Rightarrow> Inl (InvalidUseOfDefault p))
      else tagOptions opt def ps)"

definition parseTag :: "string option \<Rightarrow> Tag \<times> bool \<times> error option" where
  "parseTag tg =
     (case tg of
        None \<Rightarrow> (Tag0, False, None)
      | Some raw \<Rightarrow>
          (let parts = Split raw
           in if length parts = 0 \<or> hd parts = [] then (Tag0, False, Some EmptyTag)
              else (case tagOptions False [] (tl parts) of
                      Inl e \<Rightarrow> (Tag0, False, Some e)
                    | Inr (opt, def) \<Rightarrow>
                        (\<lparr>Env = hd parts, Optional = opt, Default = def\<rparr>, True, None))))"

definition CanSet :: "bool \<Rightarrow> 'f sfield \<Rightarrow> bool" where
  \<comment> \<open>A field can be set when its struct is addressable and the field is exported.\<close>
  "CanSet addressable f = (addressable \<and> Exported f)"

definition ParseField :: "environ \<Rightarrow> bool \<Rightarrow> 'f sfield \<Rightarrow> outcome \<times> 'f gval" where
  \<comment> \<open>The body of the loop of \<open>Parse\<close> (lines 27 to 71) for one field of an
      addressable or unaddressable struct. The first component is \<open>Return None\<close> when
      the loop goes on, \<open>Return (Some err)\<close> when \<open>Parse\<close> returns \<open>err\<close>, and \<open>Panic\<close> when
      \<open>vField.Set\<close> panics: the \<open>[]string\<close> or \<open>[]int\<close> of \<open>parseSlice\<close> is not assignable
      to a slice field whose element type is a defined type. The second component is
      the value the field has afterwards.\<close>
  "ParseField env addressable f =
     (if \<not> CanSet addressable f then (Return None, Val f)
      else (case parseTag (TagEnv f) of
         (_, _, Some err) \<Rightarrow> (Return (Some (ErrorParsingField (Name f) err)), Val f)
       | (tag, ok, None) \<Rightarrow>
           if \<not> ok then (Return None, Val f)
           else
             (let v0 = Getenv env (Env tag);
                  str = (if v0 = [] then Default tag else v0)
              in if str = [] \<and> \<not> Optional tag
                 then (Return (Some (MissingRequiredEnv (Env tag))), Val f)
                 else (case Val f of
                     VSlice elemType _ \<Rightarrow>
                       (case parseSlice str elemType of
                          Inl err \<Rightarrow>
                            (Return (Some (ErrorParsingSliceField (Name f) err)), Val f)
                        | Inr vs \<Rightarrow>
                            if typeof vs = TSlice elemType then (Return None, vs)
                            else (Panic, Val f))
                   | VString _ \<Rightarrow> (Return None, VString str)
                   | VInt KInt _ \<Rightarrow>
                       (case ParseInt str of
                          Inl ne \<Rightarrow> (Return (Some (ErrorParsingIntField (Name f) ne)), Val f)
                        | Inr parsed \<Rightarrow> (Return None, VInt KInt parsed))
                   | _ \<Rightarrow> (Return None, Val f)))))"

definition setVal :: "'f sfield \<Rightarrow> 'f gval \<Rightarrow> 'f sfield" where
  \<comment> \<open>The field with a new value: its name, tag and type stay.\<close>
  "setVal f v = SField (Name f) (Exported f) (TagEnv f) v"

fun ParseFields :: "environ \<Rightarrow> bool \<Rightarrow> 'f sfield list \<Rightarrow> outcome \<times> 'f sfield list" where
  \<comment> \<open>The loop of \<open>Parse\<close> over the fields, in declaration order: how it ends and the
      fields as it leaves them. An error or a panic ends the loop; the fields set
      before it stay set.\<close>
  "ParseFields env addressable [] = (Return None, [])"
| "ParseFields env addressable (f # fs) =
     (case ParseField env addressable f of
        (Return None, v) \<Rightarrow>
          (case ParseFields env addressable fs of (r, fs') \<Rightarrow> (r, setVal f v # fs'))
      | (r, v) \<Rightarrow> (r, setVal f v # fs))"

fun stripPtr :: "gotype \<Rightarrow> gotype" where
  \<comment> \<open>\<open>for t.Kind() == reflect.Ptr { t = t.Elem() }\<close>, up to the name of the type.\<close>
  "stripPtr (TPtr t) = stripPtr t"
| "stripPtr (TDefined t) = stripPtr t"
| "stripPtr t = t"

fun derefAll :: "'f gval \<Rightarrow> 'f gval option" where
  \<comment> \<open>\<open>for v.Kind() == reflect.Ptr { v = v.Elem() }\<close>: \<open>Elem\<close> of a nil pointer is the
      zero \<open>Value\<close>, of kind \<open>Invalid\<close>, here \<open>None\<close>.\<close>
  "derefAll (VPtr v) = derefAll v"
| "derefAll (VNilPtr t) = None"
| "derefAll v = Some v"

fun putBack :: "'f gval \<Rightarrow> 'f gval \<Rightarrow> 'f gval" where
  \<comment> \<open>The argument of \<open>Parse\<close> once the struct behind its pointers has been written.\<close>
  "putBack (VPtr v) s = VPtr (putBack v s)"
| "putBack v s = s"

fun isPtr :: "'f gval \<Rightarrow> bool" where
  "isPtr (VPtr _) = True"
| "isPtr (VNilPtr _) = True"
| "isPtr _ = False"

definition Parse :: "environ \<Rightarrow> 'f gval option \<Rightarrow> outcome \<times> 'f gval option" where
  \<comment> \<open>\<open>obj\<close> is an interface value: \<open>None\<close> is the nil interface, whose
      \<open>reflect.TypeOf\<close> is nil, so that \<open>t.Kind()\<close> panics. \<open>NumField\<close> panics on a
      type that is not a struct, and \<open>v.Field(i)\<close> on the zero \<open>Value\<close>. The struct
      reached through a pointer is addressable; one passed by value is not. The result
      is how \<open>Parse\<close> ends and the argument as \<open>Parse\<close> leaves it.\<close>
  "Parse env obj =
     (case obj of
        None \<Rightarrow> (Panic, None)
      | Some x \<Rightarrow>
          (case stripPtr (typeof x) of
             TStruct n \<Rightarrow>
               (case derefAll x of
                  None \<Rightarrow> (if n = 0 then Return None else Panic, Some x)
                | Some (VStruct fs) \<Rightarrow>
                    (case ParseFields env (isPtr x) fs of
                       (r, fs') \<Rightarrow> (r, Some (putBack x (VStruct fs'))))
                | Some _ \<Rightarrow> (Panic, Some x))
           | _ \<Rightarrow> (Panic, Some x)))"

section \<open>src/unnamed/part_000, lines 95 to 283\<close>

record 'f FloatOps =
  ParseFloat :: "string \<Rightarrow> NumError + 'f"
  Float32 :: "'f \<Rightarrow> 'f"

text \<open>
  \<open>strconv.ParseFloat(s, 64)\<close> and the rounding to \<open>float32\<close> that \<open>SetFloat\<close> does on a
  \<open>float32\<close> field are parameters of the model.
\<close>

fun tagOptions_p0 :: "Tag \<Rightarrow> string list \<Rightarrow> error + Tag" where
  \<comment> \<open>The loop of \<open>parseTag\<close> over \<open>parts[1:]\<close>, from the current \<open>result\<close>.\<close>
  "tagOptions_p0 result [] = Inr result"
| "tagOptions_p0 result (part # parts) =
     (if part = ''optional'' then tagOptions_p0 (result\<lparr>Optional := True\<rparr>) parts
      else if part = ''default'' then Inl DefaultMustHaveValue
      else if HasPrefix part ''default='' then
        (if length part \<le> 8 then Inl DefaultMustHaveValue
         else tagOptions_p0 (result\<lparr>Default := drop 8 part\<rparr>) parts)
      else Inl (UnknownTagOption part))"

definition parseTag_p0 :: "string option \<Rightarrow> Tag \<times> bool \<times> error option" where
  "parseTag_p0 tg =
     (case tg of
        None \<Rightarrow> (Tag0, False, None)
      | Some envTag \<Rightarrow>
          if envTag = [] then (Tag0, False, Some TagMustNotBeEmpty)
          else
            (let parts = Split envTag
             in if hd parts = [] then (Tag0, False, Some TagMustHaveName)
                else (case tagOptions_p0 (Tag0\<lparr>Env := hd parts\<rparr>) (tl parts) of
                        Inl e \<Rightarrow> (Tag0, False, Some e)
                      | Inr result \<Rightarrow> (result, True, None))))"

fun parseInts_p0 :: "string list \<Rightarrow> error + int list" where
  \<comment> \<open>The loop of \<open>parseSlice\<close> over the elements.\<close>
  "parseInts_p0 [] = Inr []"
| "parseInts_p0 (el # els) =
     (case Atoi el of
        Inl ne \<Rightarrow> Inl (CannotParseInt el ne)
      | Inr i \<Rightarrow> (case parseInts_p0 els of Inl e \<Rightarrow> Inl e | Inr is \<Rightarrow> Inr (i # is)))"

definition parseSlice_p0 :: "string \<Rightarrow> gotype \<Rightarrow> error + 'f gval" where
  "parseSlice_p0 str elemType =
     (if str = [] then Inr (VSlice elemType [])
      else
        (let elements = Split str
         in case underlying elemType of
              TString \<Rightarrow> Inr (VSlice TString (map VString elements))
            | TInt KInt \<Rightarrow>
                (case parseInts_p0 elements of
                   Inl e \<Rightarrow> Inl e
                 | Inr res \<Rightarrow> Inr (VSlice (TInt KInt) (map (VInt KInt) res)))
            | _ \<Rightarrow> Inl (UnsupportedSliceElemType elemType)))"

definition SetInt :: "intkind \<Rightarrow> int \<Rightarrow> int" where
  \<comment> \<open>\<open>reflect.Value.SetInt\<close> converts the \<open>int64\<close> to the field's width.\<close>
  "SetInt k x =
     (case k of
        KInt \<Rightarrow> sint (word_of_int x :: 64 word)
      | KInt8 \<Rightarrow> sint (word_of_int x :: 8 word)
      | KInt16 \<Rightarrow> sint (word_of_int x :: 16 word)
      | KInt32 \<Rightarrow> sint (word_of_int x :: 32 word)
      | KInt64 \<Rightarrow> sint (word_of_int x :: 64 word))"

definition setField :: "'f FloatOps \<Rightarrow> bool \<Rightarrow> 'f gval \<Rightarrow> string \<Rightarrow> outcome \<times> 'f gval" where
  \<comment> \<open>\<open>canSet\<close> is \<open>field.CanSet()\<close>. The result is how \<open>setField\<close> ends and the value of
      the field afterwards. \<open>field.Set\<close> panics when the slice of \<open>parseSlice\<close> is not
      assignable to the field: a \<open>[]string\<close> or \<open>[]int\<close> for a slice field whose element
      type is a defined type.\<close>
  "setField fl canSet field str =
     (if \<not> canSet then (Return (Some CannotSetFieldValue), field)
      else (case field of
          VString _ \<Rightarrow> (Return None, VString str)
        | VInt k _ \<Rightarrow>
            (case ParseInt str of
               Inl ne \<Rightarrow> (Return (Some (CannotParseInt str ne)), field)
             | Inr intValue \<Rightarrow> (Return None, VInt k (SetInt k intValue)))
        | VBool _ \<Rightarrow>
            (case ParseBool str of
               Inl ne \<Rightarrow> (Return (Some (CannotParseBool str ne)), field)
             | Inr boolValue \<Rightarrow> (Return None, VBool boolValue))
        | VFloat k _ \<Rightarrow>
            (case ParseFloat fl str of
               Inl ne \<Rightarrow> (Return (Some (CannotParseFloat str ne)), field)
             | Inr floatValue \<Rightarrow>
                 (Return None,
                  VFloat k (case k of KFloat32 \<Rightarrow> Float32 fl floatValue
                            | KFloat64 \<Rightarrow> floatValue)))
        | VSlice elemType _ \<Rightarrow>
            (case parseSlice_p0 str elemType of
               Inl err \<Rightarrow> (Return (Some err), field)
             | Inr sliceValue \<Rightarrow>
                 if typeof sliceValue = TSlice elemType then (Return None, sliceValue)
                 else (Panic, field))
        | _ \<Rightarrow> (Return (Some (UnsupportedFieldType (typeof field))), field)))"

definition parseLeaf ::
  "environ \<Rightarrow> 'f FloatOps \<Rightarrow> bool \<Rightarrow> string \<Rightarrow> string option \<Rightarrow> 'f gval \<Rightarrow> outcome \<times> 'f gval"
where
  \<comment> \<open>Lines 154 to 176, the loop body of \<open>parseStruct\<close> for a field that is not
      recursed into: the field's name, annotation and value, and whether it can be set.
      The first component is \<open>Return None\<close> when the loop goes on, \<open>Return (Some err)\<close>
      when \<open>parseStruct\<close> returns \<open>err\<close>, and \<open>Panic\<close> when \<open>setField\<close> panics; the second is
      the value of the field afterwards.\<close>
  "parseLeaf env fl canSet name tg fieldValue =
     (case parseTag_p0 tg of
        (_, _, Some err) \<Rightarrow> (Return (Some (InvalidTagFormat name err)), fieldValue)
      | (tag, ok, None) \<Rightarrow>
          if \<not> ok then (Return None, fieldValue)
          else
            (let assign = (\<lambda>str. case setField fl canSet fieldValue str of
                                 (Return (Some err), v) \<Rightarrow>
                                   (Return (Some (FailedToSetField name err)), v)
                               | (r, v) \<Rightarrow> (r, v))
             in case LookupEnv env (Env tag) of
                  (str, exists) \<Rightarrow>
                    if \<not> exists then
                      (if Optional tag then (Return None, fieldValue)
                       else if Default tag \<noteq> [] then assign (Default tag)
                       else (Return (Some (RequiredNotSet (Env tag))), fieldValue))
                    else assign str))"

fun parseStruct ::
  "environ \<Rightarrow> 'f FloatOps \<Rightarrow> bool \<Rightarrow> 'f gval \<Rightarrow> outcome \<times> 'f gval"
and parseStruct_loop ::
  "environ \<Rightarrow> 'f FloatOps \<Rightarrow> bool \<Rightarrow> 'f sfield list \<Rightarrow> outcome \<times> 'f sfield list"
where
  \<comment> \<open>\<open>parseStruct env fl addressable rv\<close>: how the call ends and \<open>rv\<close> afterwards.
      A field of \<open>rv\<close> is addressable when \<open>rv\<close> is, and the pointee of a pointer always.\<close>
  "parseStruct env fl addressable (VStruct fs) =
     (case parseStruct_loop env fl addressable fs of (r, fs') \<Rightarrow> (r, VStruct fs'))"
| "parseStruct env fl addressable (VString s) = (Return (Some ValueMustBeStruct), VString s)"
| "parseStruct env fl addressable (VInt k i) = (Return (Some ValueMustBeStruct), VInt k i)"
| "parseStruct env fl addressable (VBool b) = (Return (Some ValueMustBeStruct), VBool b)"
| "parseStruct env fl addressable (VFloat k x) = (Return (Some ValueMustBeStruct), VFloat k x)"
| "parseStruct env fl addressable (VSlice t xs) = (Return (Some ValueMustBeStruct), VSlice t xs)"
| "parseStruct env fl addressable (VNilPtr t) = (Return (Some ValueMustBeStruct), VNilPtr t)"
| "parseStruct env fl addressable (VPtr p) = (Return (Some ValueMustBeStruct), VPtr p)"
| "parseStruct env fl addressable (VOther k) = (Return (Some ValueMustBeStruct), VOther k)"
| "parseStruct_loop env fl addressable [] = (Return None, [])"
| "parseStruct_loop env fl addressable (SField name exported tg fieldValue # fs) =
     (case (if \<not> exported then (Return None, fieldValue)
            else (case fieldValue of
                VStruct sub \<Rightarrow> parseStruct env fl addressable (VStruct sub)
              | VPtr (VStruct sub) \<Rightarrow>
                  (case parseStruct env fl True (VStruct sub) of (r, p) \<Rightarrow> (r, VPtr p))
              | _ \<Rightarrow> parseLeaf env fl (addressable \<and> exported) name tg fieldValue)) of
        (Return None, v) \<Rightarrow>
          (case parseStruct_loop env fl addressable fs of
             (r, fs') \<Rightarrow> (r, SField name exported tg v # fs'))
      | (r, v) \<Rightarrow> (r, SField name exported tg v # fs))"

definition Parse_p0 ::
  "environ \<Rightarrow> 'f FloatOps \<Rightarrow> 'f gval option \<Rightarrow> outcome \<times> 'f gval option"
where
  \<comment> \<open>\<open>v\<close> is an interface value (\<open>None\<close> the nil interface, of kind \<open>Invalid\<close>); the
      result is how \<open>Parse\<close> ends and the argument as \<open>Parse\<close> leaves it.\<close>
  "Parse_p0 env fl v =
     (case v of
        Some (VPtr x) \<Rightarrow> (case parseStruct env fl True x of (r, x') \<Rightarrow> (r, Some (VPtr x')))
      | _ \<Rightarrow> (Return (Some InputMustBeNonNilPointer), v))"

section \<open>The error kinds of the specification\<close>

datatype errclass =
  InvalidInput | MalformedAnnotation | MissingRequired | ConversionError | UnsupportedType

fun error_class :: "error \<Rightarrow> errclass" where
  \<comment> \<open>The kind of each error message, after section 7 of the specification; an error
      that wraps another one has the kind of the error it wraps.\<close>
  "error_class EmptyTag = MalformedAnnotation"
| "error_class (InvalidUseOfDefault _) = MalformedAnnotation"
| "error_class (ErrorParsingField _ e) = error_class e"
| "error_class (MissingRequiredEnv _) = MissingRequired"
| "error_class (ErrorParsingSliceField _ e) = error_class e"
| "error_class (ErrorParsingIntField _ _) = ConversionError"
| "error_class (ErrorParsingIntSlice _) = ConversionError"
| "error_class (UnsupportedSliceType _) = UnsupportedType"
| "error_class InputMustBeNonNilPointer = InvalidInput"
| "error_class ValueMustBeStruct = InvalidInput"
| "error_class (InvalidTagFormat _ e) = error_class e"
| "error_class (RequiredNotSet _) = MissingRequired"
| "error_class (FailedToSetField _ e) = error_class e"
| "error_class TagMustNotBeEmpty = MalformedAnnotation"
| "error_class TagMustHaveName = MalformedAnnotation"
| "error_class DefaultMustHaveValue = MalformedAnnotation"
| "error_class (UnknownTagOption _) = MalformedAnnotation"
| "error_class CannotSetFieldValue = InvalidInput"
| "error_class (CannotParseInt _ _) = ConversionError"
| "error_class (CannotParseBool _ _) = ConversionError"
| "error_class (CannotParseFloat _ _) = ConversionError"
| "error_class (UnsupportedFieldType _) = UnsupportedType"
| "error_class (UnsupportedSliceElemType _) = UnsupportedType"

section \<open>The annotation grammar of the specification\<close>

definition isDefaultOption :: "string \<Rightarrow> bool" where
  \<comment> \<open>An option segment of the form \<open>default=<literal>\<close>.\<close>
  "isDefaultOption p = prefix ''default='' p"

definition validOption :: "string \<Rightarrow> bool" where
  \<comment> \<open>\<open>option := "optional" | "default=" literal\<close>, section 6 of the specification.\<close>
  "validOption p = (p = ''optional'' \<or> isDefaultOption p)"

definition noComma :: "string \<Rightarrow> bool" where
  \<comment> \<open>A name, an option or a literal holds no comma.\<close>
  "noComma p = (CHR '','' \<notin> set p)"

section \<open>Notions used to state the claims\<close>

fun recursedInto :: "'f gval \<Rightarrow> bool" where
  \<comment> \<open>The fields \<open>parseStruct\<close> of \<open>src/unnamed/part_000\<close> treats as sub-records
      (lines 139 and 147): struct-typed ones and non-nil pointers to a struct.\<close>
  "recursedInto (VStruct _) = True"
| "recursedInto (VPtr (VStruct _)) = True"
| "recursedInto _ = False"

definition noFloats :: "unit FloatOps" where
  \<comment> \<open>Float operations for records without float fields: every parse is an error.\<close>
  "noFloats = \<lparr>ParseFloat = (\<lambda>s. Inl (NumError ''ParseFloat'' s ErrSyntax)), Float32 = id\<rparr>"

definition resolve_p0 :: "environ \<Rightarrow> Tag \<Rightarrow> string option" where
  \<comment> \<open>The string that lines 162 to 172 of \<open>parseStruct\<close> hand to \<open>setField\<close>, if any:
      the variable's value when it is set; when it is unset, the default, if the
      annotation is not optional and the default is not empty.\<close>
  "resolve_p0 env tag =
     (case env (Env tag) of
        Some y \<Rightarrow> Some y
      | None \<Rightarrow> if \<not> Optional tag \<and> Default tag \<noteq> [] then Some (Default tag) else None)"


section \<open>The record and the environment of the test \<open>combination of types\<close>\<close>

definition testEnv :: environ where
  "testEnv = [''APP_NAME'' \<mapsto> ''test-app'', ''PORT'' \<mapsto> ''8080'', ''DEBUG'' \<mapsto> ''true'',
     ''ALLOWED_HOSTS'' \<mapsto> ''localhost,example.com'']"

definition testRecord ::
  "string \<Rightarrow> int \<Rightarrow> string \<Rightarrow> string list \<Rightarrow> string \<Rightarrow> string \<Rightarrow> unit gval"
where
  \<comment> \<open>A pointer to the struct of the test, with the given field values.\<close>
  "testRecord appName port debug hosts opt dflt = VPtr (VStruct
     [SField ''AppName'' True (Some ''APP_NAME'') (VString appName),
      SField ''Port'' True (Some ''PORT'') (VInt KInt port),
      SField ''Debug'' True (Some ''DEBUG'') (VString debug),
      SField ''AllowedHosts'' True (Some ''ALLOWED_HOSTS'') (VSlice TString (map VString hosts)),
      SField ''Optional'' True (Some ''OPTIONAL,optional'') (VString opt),
      SField ''DefaultVal'' True (Some ''DEFAULT_VAL,default=default'') (VString dflt)])"

section \<open>Facts about the library functions\<close>

lemma Split_not_Nil: "Split s \<noteq> []"
  by (induction s) (auto split: list.splits)

lemma Join_Split: "Join (Split s) = s"
proof (induction s)
  case Nil
  then show ?case by simp
next
  case (Cons c cs)
  then show ?case
    by (cases "Split cs"; cases "tl (Split cs)") (auto simp: Split_not_Nil)
qed

lemma Split_elements_noComma: "x \<in> set (Split s) \<Longrightarrow> noComma x"
  by (induction s arbitrary: x) (auto simp: noComma_def split: if_splits list.splits)

lemmas strconv_defs = Atoi_def ParseInt_def ParseUint_def isDigit_def maxUint64_def

lemmas env_go_defs =
  Parse_def ParseField_def parseTag_def parseSlice_def CanSet_def setVal_def
  HasPrefix_def SplitN2_def Getenv_def LookupEnv_def Let_def

lemmas part0_defs =
  Parse_p0_def parseLeaf_def parseTag_p0_def setField_def parseSlice_p0_def
  HasPrefix_def LookupEnv_def Tag0_def Let_def

section \<open>The tests of src/env_test.go, on both embeddings\<close>

lemma Parse_combination_of_types:
  "Parse testEnv (Some (testRecord [] 0 [] [] [] []))
   = (Return None, Some (testRecord ''test-app'' 8080 ''true'' [''localhost'', ''example.com'']
        [] ''default''))"
  by (simp add: testEnv_def testRecord_def env_go_defs strconv_defs)

lemma Parse_p0_combination_of_types:
  "Parse_p0 testEnv noFloats (Some (testRecord [] 0 [] [] [] []))
   = (Return None, Some (testRecord ''test-app'' 8080 ''true'' [''localhost'', ''example.com'']
        [] ''default''))"
  by (simp add: testEnv_def testRecord_def part0_defs strconv_defs SetInt_def)

lemma TestParseTag_env_go:
  "parseTag (Some ''APP_NAME'') = (\<lparr>Env = ''APP_NAME'', Optional = False, Default = ''''\<rparr>, True, None)"
  "parseTag (Some ''APP_NAME,optional'')
     = (\<lparr>Env = ''APP_NAME'', Optional = True, Default = ''''\<rparr>, True, None)"
  "parseTag (Some ''APP_NAME,default=test'')
     = (\<lparr>Env = ''APP_NAME'', Optional = False, Default = ''test''\<rparr>, True, None)"
  "parseTag (Some ''APP_NAME,optional,default=test'')
     = (\<lparr>Env = ''APP_NAME'', Optional = True, Default = ''test''\<rparr>, True, None)"
  "parseTag None = (Tag0, False, None)"
  "parseTag (Some '''') = (Tag0, False, Some EmptyTag)"
  "parseTag (Some ''APP_NAME,default'') = (Tag0, False, Some (InvalidUseOfDefault ''default''))"
  by (simp_all add: env_go_defs)

lemma TestParseTag_part0:
  "parseTag_p0 (Some ''APP_NAME'')
     = (\<lparr>Env = ''APP_NAME'', Optional = False, Default = ''''\<rparr>, True, None)"
  "parseTag_p0 (Some ''APP_NAME,optional'')
     = (\<lparr>Env = ''APP_NAME'', Optional = True, Default = ''''\<rparr>, True, None)"
  "parseTag_p0 (Some ''APP_NAME,default=test'')
     = (\<lparr>Env = ''APP_NAME'', Optional = False, Default = ''test''\<rparr>, True, None)"
  "parseTag_p0 (Some ''APP_NAME,optional,default=test'')
     = (\<lparr>Env = ''APP_NAME'', Optional = True, Default = ''test''\<rparr>, True, None)"
  "parseTag_p0 None = (Tag0, False, None)"
  "parseTag_p0 (Some '''') = (Tag0, False, Some TagMustNotBeEmpty)"
  "parseTag_p0 (Some ''APP_NAME,default'') = (Tag0, False, Some DefaultMustHaveValue)"
  by (simp_all add: part0_defs)

lemma TestParseSlice_env_go:
  "parseSlice ''a,b,c'' TString
     = Inr (VSlice TString [VString ''a'', VString ''b'', VString ''c''] :: unit gval)"
  "parseSlice ''1,2,3'' (TInt KInt)
     = Inr (VSlice (TInt KInt) [VInt KInt 1, VInt KInt 2, VInt KInt 3] :: unit gval)"
  "parseSlice ''1,x,3'' (TInt KInt)
     = (Inl (ErrorParsingIntSlice (NumError ''Atoi'' ''x'' ErrSyntax)) :: error + unit gval)"
  "parseSlice ''1.1,2.2'' (TFloat KFloat64)
     = (Inl (UnsupportedSliceType (TFloat KFloat64)) :: error + unit gval)"
  by (simp_all add: parseSlice_def strconv_defs)

lemma TestParseSlice_part0:
  "parseSlice_p0 ''a,b,c'' TString
     = Inr (VSlice TString [VString ''a'', VString ''b'', VString ''c''] :: unit gval)"
  "parseSlice_p0 ''1,2,3'' (TInt KInt)
     = Inr (VSlice (TInt KInt) [VInt KInt 1, VInt KInt 2, VInt KInt 3] :: unit gval)"
  "parseSlice_p0 ''1,x,3'' (TInt KInt)
     = (Inl (CannotParseInt ''x'' (NumError ''Atoi'' ''x'' ErrSyntax)) :: error + unit gval)"
  "parseSlice_p0 ''1.1,2.2'' (TFloat KFloat64)
     = (Inl (UnsupportedSliceElemType (TFloat KFloat64)) :: error + unit gval)"
  by (simp_all add: parseSlice_p0_def strconv_defs)

section \<open>What src/env.go does where the specification says otherwise\<close>

text \<open>
  C1, in \<open>src/env.go\<close>. The claim: a variable that is set, also to the empty string,
  wins over the default. \<open>Parse\<close> reads the variable with \<open>os.Getenv\<close> and takes the
  default whenever the result is empty, so for the record
  \<open>&struct{ F string `env:"X,default=dflt"` }{}\<close> and \<open>X\<close> set to the empty string,
  \<open>F\<close> ends as \<open>"dflt"\<close>, not as the empty string. \<open>parseStruct\<close> of
  \<open>src/unnamed/part_000\<close> reads the variable with \<open>os.LookupEnv\<close> and does what the
  claim says (\<open>Parse_p0_set_value_wins\<close>).
\<close>

theorem C1_env_go_empty_value_takes_default:
  "Parse [''X'' \<mapsto> ''''] (Some (VPtr (VStruct
      [SField ''F'' True (Some ''X,default=dflt'') (VString '''')])))
   = (Return None, Some (VPtr (VStruct
      [SField ''F'' True (Some ''X,default=dflt'') (VString ''dflt'')])))"
  by (simp add: env_go_defs)

text \<open>
  C2, in \<open>src/env.go\<close>. The claim: an argument that is not a non-nil pointer to a
  struct gets an error. \<open>Parse\<close> has no such check: on the nil interface it panics, and
  on a struct passed by value, here \<open>struct{ F string `env:"X"` }{}\<close> with \<open>X\<close> unset,
  it returns \<open>nil\<close> having skipped every field, since none can be set. \<open>Parse\<close> of
  \<open>src/unnamed/part_000\<close> has the check (\<open>Parse_p0_invalid_input\<close>).
\<close>

theorem C2_env_go_no_input_check:
  "Parse Map.empty (None :: unit gval option) = (Panic, None) \<and>
   Parse Map.empty (Some (VStruct [SField ''F'' True (Some ''X'') (VString '''')]))
   = (Return None, Some (VStruct [SField ''F'' True (Some ''X'') (VString '''' :: unit gval)]))"
  by (simp add: env_go_defs)

text \<open>
  C3, in \<open>src/env.go\<close>. The claim: an optional field whose variable is unset, with no
  default, leaves \<open>Parse\<close> successful and the field at its zero value, whatever its
  type. \<open>Parse\<close> converts the empty string instead: for
  \<open>&struct{ N int `env:"N,optional"` }{}\<close> it fails on \<open>ParseInt("")\<close>, and for
  \<open>&struct{ S []string `env:"S,optional"` }{}\<close> the field ends as the one-element
  slice \<open>[""]\<close>. \<open>parseStruct\<close> of \<open>src/unnamed/part_000\<close> skips such a field
  (\<open>Parse_p0_optional_unset\<close>).
\<close>

theorem C3_env_go_optional_unset_is_converted:
  "Parse Map.empty (Some (VPtr (VStruct
      [SField ''N'' True (Some ''N,optional'') (VInt KInt 0 :: unit gval)])))
   = (Return (Some (ErrorParsingIntField ''N'' (NumError ''ParseInt'' '''' ErrSyntax))),
      Some (VPtr (VStruct [SField ''N'' True (Some ''N,optional'') (VInt KInt 0)]))) \<and>
   Parse Map.empty (Some (VPtr (VStruct
      [SField ''S'' True (Some ''S,optional'') (VSlice TString [] :: unit gval)])))
   = (Return None,
      Some (VPtr (VStruct [SField ''S'' True (Some ''S,optional'')
        (VSlice TString [VString ''''])])))"
  by (simp add: env_go_defs strconv_defs)

text \<open>
  C4, in \<open>src/env.go\<close>. The claim: a boolean field is parsed from its variable, and an
  unrecognised token is an error. The \<open>switch\<close> of \<open>Parse\<close> has no case for
  \<open>reflect.Bool\<close>: for \<open>&struct{ Debug bool `env:"DEBUG"` }{}\<close> the field stays
  \<open>false\<close> and \<open>Parse\<close> returns \<open>nil\<close>, with \<open>DEBUG\<close> set to \<open>true\<close> as with \<open>DEBUG\<close> set
  to \<open>maybe\<close>. \<open>setField\<close> of \<open>src/unnamed/part_000\<close> has the case
  (\<open>Parse_p0_bool\<close>).
\<close>

theorem C4_env_go_bool_left_unassigned:
  "Parse [''DEBUG'' \<mapsto> ''true''] (Some (VPtr (VStruct
      [SField ''Debug'' True (Some ''DEBUG'') (VBool False :: unit gval)])))
   = (Return None, Some (VPtr (VStruct
      [SField ''Debug'' True (Some ''DEBUG'') (VBool False)]))) \<and>
   Parse [''DEBUG'' \<mapsto> ''maybe''] (Some (VPtr (VStruct
      [SField ''Debug'' True (Some ''DEBUG'') (VBool False :: unit gval)])))
   = (Return None, Some (VPtr (VStruct
      [SField ''Debug'' True (Some ''DEBUG'') (VBool False)])))"
  by (simp add: env_go_defs)



text \<open>
  C7, in \<open>src/env.go\<close>. The claim: the empty string converts to the empty sequence of
  strings. \<open>parseSlice\<close> of \<open>src/env.go\<close> returns \<open>strings.Split("", ",")\<close>, the
  one-element sequence \<open>[""]\<close>, and \<open>Parse\<close> assigns it: for
  \<open>&struct{ Hosts []string `env:"HOSTS,optional"` }{}\<close> with \<open>HOSTS\<close> set to the empty
  string the field ends with length one. \<open>parseSlice\<close> of \<open>src/unnamed/part_000\<close>
  returns the empty sequence (\<open>parseSlice_p0_strings\<close>).
\<close>

theorem C7_env_go_empty_string_one_element:
  "parseSlice '''' TString = Inr (VSlice TString [VString '''' :: unit gval]) \<and>
   Parse [''HOSTS'' \<mapsto> ''''] (Some (VPtr (VStruct
      [SField ''Hosts'' True (Some ''HOSTS,optional'') (VSlice TString [] :: unit gval)])))
   = (Return None, Some (VPtr (VStruct
      [SField ''Hosts'' True (Some ''HOSTS,optional'') (VSlice TString [VString ''''])])))"
  by (simp add: env_go_defs)

section \<open>Annotation parsing\<close>

lemma Split_noComma: "noComma x \<Longrightarrow> Split x = [x]"
  by (induction x) (auto simp: noComma_def)

lemma Split_append_comma: "noComma x \<Longrightarrow> Split (x @ CHR '','' # r) = x # Split r"
  by (induction x) (auto simp: noComma_def)

lemma Split_Join: "xs \<noteq> [] \<Longrightarrow> \<forall>x\<in>set xs. noComma x \<Longrightarrow> Split (Join xs) = xs"
  by (induction xs rule: Join.induct) (auto simp: Split_noComma Split_append_comma)

lemma Join_Nil_iff: "Join (x # xs) = [] \<longleftrightarrow> x = [] \<and> xs = []"
  by (cases xs) auto

lemma SplitN2_default: "isDefaultOption p \<Longrightarrow> SplitN2 p = [''default'', drop 8 p]"
  by (auto simp: isDefaultOption_def SplitN2_def prefix_def)

lemma default_not_optional: "isDefaultOption p \<Longrightarrow> p \<noteq> ''optional''"
  by (auto simp: isDefaultOption_def prefix_def)

lemma default_HasPrefix: "isDefaultOption p \<Longrightarrow> HasPrefix p ''default''"
  by (auto simp: isDefaultOption_def HasPrefix_def prefix_def)

lemma optional_not_default: "\<not> isDefaultOption ''optional''"
  by (simp add: isDefaultOption_def)

lemma tagOptions_valid:
  "\<forall>p\<in>set ps. validOption p \<Longrightarrow> length (filter isDefaultOption ps) \<le> 1 \<Longrightarrow>
   tagOptions opt def ps =
     Inr (opt \<or> ''optional'' \<in> set ps,
          case filter isDefaultOption ps of [] \<Rightarrow> def | d # _ \<Rightarrow> drop 8 d)"
proof (induction ps arbitrary: opt def)
  case Nil
  then show ?case by simp
next
  case (Cons p ps)
  show ?case
  proof (cases "p = ''optional''")
    case True
    with Cons show ?thesis by (simp add: optional_not_default)
  next
    case False
    with Cons.prems have d: "isDefaultOption p" by (simp add: validOption_def)
    with Cons.prems have none: "filter isDefaultOption ps = []" by simp
    from Cons.prems have "\<forall>p\<in>set ps. validOption p" by simp
    from Cons.IH [OF this, of opt "drop 8 p"] none
    have "tagOptions opt (drop 8 p) ps = Inr (opt \<or> ''optional'' \<in> set ps, drop 8 p)"
      by simp
    with False d none show ?thesis
      by (simp add: default_HasPrefix SplitN2_default)
  qed
qed

lemma default_eq_length: "isDefaultOption p \<Longrightarrow> length p \<le> 8 \<longleftrightarrow> p = ''default=''"
  by (auto simp: isDefaultOption_def prefix_def)

lemma default_HasPrefix_p0: "HasPrefix p ''default='' = isDefaultOption p"
  by (simp add: isDefaultOption_def HasPrefix_def)

lemma default_not_bare: "isDefaultOption p \<Longrightarrow> p \<noteq> ''default''"
  by (auto simp: isDefaultOption_def prefix_def)

lemma tagOptions_p0_valid:
  "\<forall>p\<in>set ps. validOption p \<Longrightarrow> length (filter isDefaultOption ps) \<le> 1 \<Longrightarrow>
   tagOptions_p0 r ps =
     (if ''default='' \<in> set ps then Inl DefaultMustHaveValue
      else Inr (r\<lparr>Optional := Optional r \<or> ''optional'' \<in> set ps,
                  Default := (case filter isDefaultOption ps of
                                [] \<Rightarrow> Default r | d # _ \<Rightarrow> drop 8 d)\<rparr>))"
proof (induction ps arbitrary: r)
  case Nil
  then show ?case by simp
next
  case (Cons p ps)
  show ?case
  proof (cases "p = ''optional''")
    case True
    with Cons show ?thesis by (simp add: optional_not_default split: list.splits)
  next
    case False
    with Cons.prems have d: "isDefaultOption p" by (simp add: validOption_def)
    with Cons.prems have none: "filter isDefaultOption ps = []" by simp
    then have nd: "''default='' \<notin> set ps"
      by (auto simp: filter_empty_conv isDefaultOption_def)
    from Cons.prems have "\<forall>p\<in>set ps. validOption p" by simp
    from Cons.IH [OF this, of "r\<lparr>Default := drop 8 p\<rparr>"] none nd
    have "tagOptions_p0 (r\<lparr>Default := drop 8 p\<rparr>) ps =
            Inr (r\<lparr>Optional := Optional r \<or> ''optional'' \<in> set ps, Default := drop 8 p\<rparr>)"
      by simp
    with False d none nd show ?thesis
      by (auto simp: default_HasPrefix_p0 default_eq_length default_not_bare)
  qed
qed

lemma short_list_mset_eq:
  "mset xs = mset ys \<Longrightarrow> length ys \<le> 1 \<Longrightarrow> xs = ys"
  by (cases ys; cases xs) (auto simp: Suc_le_eq)

lemma perm_filter_short:
  assumes "mset opts' = mset opts" "length (filter P opts) \<le> 1"
  shows "filter P opts' = filter P opts"
proof -
  have "mset (filter P opts') = mset (filter P opts)"
    using assms(1) by (simp add: mset_filter)
  then show ?thesis using assms(2) by (rule short_list_mset_eq)
qed

text \<open>
  C10. The order of the options of an annotation does not matter: when every option
  segment after the name is \<open>optional\<close> or \<open>default=<literal>\<close>, at most one of
  them is a \<open>default=\<close> option, and \<open>opts'\<close> is a permutation of \<open>opts\<close>, then
  \<open>parseTag\<close> returns the same triple (annotation, presence flag, error) for
  \<open>name,opts'\<close> as for \<open>name,opts\<close>. This holds for \<open>parseTag\<close> of \<open>src/env.go\<close> and
  for \<open>parseTag\<close> of \<open>src/unnamed/part_000\<close>.
\<close>

theorem parseTag_option_order:
  assumes perm: "mset opts' = mset opts"
    and valid: "\<forall>p\<in>set opts. validOption p"
    and one: "length (filter isDefaultOption opts) \<le> 1"
    and commas: "\<forall>p\<in>set (name # opts). noComma p"
  shows "parseTag (Some (Join (name # opts'))) = parseTag (Some (Join (name # opts))) \<and>
         parseTag_p0 (Some (Join (name # opts'))) = parseTag_p0 (Some (Join (name # opts)))"
proof -
  have sets: "set opts' = set opts" using perm by (rule mset_eq_setD)
  have filt: "filter isDefaultOption opts' = filter isDefaultOption opts"
    using perm one by (rule perm_filter_short)
  have valid': "\<forall>p\<in>set opts'. validOption p" using valid sets by simp
  have one': "length (filter isDefaultOption opts') \<le> 1" using one filt by simp
  have commas': "\<forall>p\<in>set (name # opts'). noComma p" using commas sets by simp
  have s: "Split (Join (name # opts)) = name # opts"
    using commas by (intro Split_Join) simp_all
  have s': "Split (Join (name # opts')) = name # opts'"
    using commas' by (intro Split_Join) simp_all
  have nil: "opts' = [] \<longleftrightarrow> opts = []" using sets by auto
  have go: "parseTag (Some (Join (name # opts'))) = parseTag (Some (Join (name # opts)))"
    by (simp add: parseTag_def Let_def s s' tagOptions_valid [OF valid one]
        tagOptions_valid [OF valid' one'] sets filt)
  have e: "Join (name # opts') = [] \<longleftrightarrow> Join (name # opts) = []"
    by (simp add: Join_Nil_iff nil)
  have p0: "parseTag_p0 (Some (Join (name # opts'))) = parseTag_p0 (Some (Join (name # opts)))"
    unfolding parseTag_p0_def Let_def s s' option.case e
    by (simp add: tagOptions_p0_valid [OF valid one]
        tagOptions_p0_valid [OF valid' one'] sets filt)
  from go p0 show ?thesis ..
qed

text \<open>
  The theorem at \<open>APP_NAME\<close> with the options \<open>optional\<close> and \<open>default=test\<close> in
  both orders; the annotation parsed is the one of the test \<open>combined options\<close>.
\<close>

theorem parseTag_option_order_witness:
  "parseTag (Some ''APP_NAME,default=test,optional'')
     = parseTag (Some ''APP_NAME,optional,default=test'') \<and>
   parseTag_p0 (Some ''APP_NAME,default=test,optional'')
     = parseTag_p0 (Some ''APP_NAME,optional,default=test'') \<and>
   parseTag_p0 (Some ''APP_NAME,optional,default=test'')
     = (\<lparr>Env = ''APP_NAME'', Optional = True, Default = ''test''\<rparr>, True, None)"
  using parseTag_option_order [of "[''default=test'', ''optional'']"
      "[''optional'', ''default=test'']" "''APP_NAME''"]
  by (simp add: validOption_def isDefaultOption_def noComma_def part0_defs)

lemma tagOptions_p0_invalid:
  "p \<in> set ps \<Longrightarrow> p \<noteq> ''optional'' \<Longrightarrow> \<not> isDefaultOption p \<Longrightarrow>
   \<exists>e. tagOptions_p0 r ps = Inl e \<and> error_class e = MalformedAnnotation"
proof (induction ps arbitrary: r)
  case Nil
  then show ?case by simp
next
  case (Cons q qs)
  show ?case
  proof (cases "p = q")
    case True
    with Cons.prems show ?thesis by (simp add: default_HasPrefix_p0)
  next
    case False
    with Cons.prems have "p \<in> set qs" by simp
    from Cons.IH [OF this Cons.prems(2,3)] show ?thesis by simp
  qed
qed

lemma tagOptions_p0_error_class:
  "tagOptions_p0 r ps = Inl e \<Longrightarrow> error_class e = MalformedAnnotation"
  by (induction ps arbitrary: r) (auto split: if_splits)

lemma parseTag_p0_error_class:
  "parseTag_p0 tg = (t, ok, Some e) \<Longrightarrow> error_class e = MalformedAnnotation"
  by (auto simp: parseTag_p0_def Let_def split: option.splits if_splits sum.splits
      dest: tagOptions_p0_error_class)

text \<open>
  C6. Under the strict policy, which is the one of \<open>parseTag\<close> of
  \<open>src/unnamed/part_000\<close>, an annotation with a segment after the name that is neither
  \<open>optional\<close> nor of the form \<open>default=...\<close> is refused: \<open>parseTag\<close> returns an error of
  the kind \<open>MalformedAnnotation\<close> and no annotation. \<open>parseTag\<close> takes the annotation
  text only, so the result does not depend on whether the variable is set.
\<close>

theorem parseTag_p0_unknown_option:
  assumes "p \<in> set (tl (Split raw))" and "p \<noteq> ''optional''" and "\<not> isDefaultOption p"
  shows "\<exists>e. parseTag_p0 (Some raw) = (Tag0, False, Some e) \<and>
             error_class e = MalformedAnnotation"
proof -
  from assms(1) have "raw \<noteq> []" by auto
  moreover from tagOptions_p0_invalid [OF assms]
  obtain e where "tagOptions_p0 (Tag0\<lparr>Env := hd (Split raw)\<rparr>) (tl (Split raw)) = Inl e"
    "error_class e = MalformedAnnotation" by blast
  ultimately show ?thesis by (simp add: parseTag_p0_def Let_def)
qed

text \<open>
  The theorem at the annotation \<open>"NAME,frobnicate"\<close>: the error is
  \<open>unknown tag option: frobnicate\<close>.
\<close>

theorem parseTag_p0_unknown_option_witness:
  "parseTag_p0 (Some ''NAME,frobnicate'')
     = (Tag0, False, Some (UnknownTagOption ''frobnicate'')) \<and>
   error_class (UnknownTagOption ''frobnicate'') = MalformedAnnotation"
proof -
  have "''frobnicate'' \<in> set (tl (Split ''NAME,frobnicate''))" by simp
  from parseTag_p0_unknown_option [OF this]
  obtain e where "parseTag_p0 (Some ''NAME,frobnicate'') = (Tag0, False, Some e)"
    "error_class e = MalformedAnnotation"
    by (auto simp: isDefaultOption_def)
  moreover have "parseTag_p0 (Some ''NAME,frobnicate'')
     = (Tag0, False, Some (UnknownTagOption ''frobnicate''))"
    by (simp add: part0_defs)
  ultimately show ?thesis by simp
qed

text \<open>
  \<open>parseTag\<close> of \<open>src/env.go\<close> has the looser policy: its loop has no branch for such
  a segment and passes over it, so \<open>"NAME,frobnicate"\<close> is parsed as the annotation
  \<open>NAME\<close>.
\<close>

lemma parseTag_env_go_ignores_unknown_option:
  "parseTag (Some ''NAME,frobnicate'')
   = (\<lparr>Env = ''NAME'', Optional = False, Default = ''''\<rparr>, True, None)"
  by (simp add: env_go_defs)


section \<open>Binding with src/env.go\<close>

lemma setVal_Val [simp]: "setVal f (Val f) = f"
  by (cases f) (simp add: setVal_def)

lemma ParseFields_append:
  "ParseFields env a (pre @ post) =
     (case ParseFields env a pre of
        (Return None, pre') \<Rightarrow>
          (case ParseFields env a post of (r, post') \<Rightarrow> (r, pre' @ post'))
      | (r, pre') \<Rightarrow> (r, pre' @ post))"
  by (induction pre) (auto split: prod.splits outcome.splits option.splits)

lemma ParseInt_error_Num: "ParseInt s = Inl ne \<Longrightarrow> ne = NumError ''ParseInt'' s (Err ne)"
  by (auto simp: ParseInt_def Let_def split: list.splits sum.splits if_splits)

lemma Atoi_error: "Atoi s = Inl ne \<Longrightarrow> ne = NumError ''Atoi'' s (Err ne)"
proof -
  assume a: "Atoi s = Inl ne"
  then obtain pe where pe: "ParseInt s = Inl pe" and ne: "ne = NumError ''Atoi'' (Num pe) (Err pe)"
    by (auto simp: Atoi_def split: sum.splits)
  from pe have "pe = NumError ''ParseInt'' s (Err pe)" by (rule ParseInt_error_Num)
  then have "Num pe = s" by (metis NumError.sel(2))
  with ne show ?thesis by simp
qed

lemma parseInts_error:
  "parseInts vs = Inl ne \<Longrightarrow> \<exists>el\<in>set vs. Atoi el = Inl ne"
  by (induction vs arbitrary: ne) (auto split: sum.splits)

lemma parseInts_fails:
  "\<exists>el\<in>set vs. isl (Atoi el) \<Longrightarrow> isl (parseInts vs)"
proof (induction vs)
  case Nil
  then show ?case by simp
next
  case (Cons v vs)
  show ?case
  proof (cases "Atoi v")
    case (Inl ne)
    then show ?thesis by simp
  next
    case (Inr i)
    with Cons.prems have "\<exists>el\<in>set vs. isl (Atoi el)" by auto
    then have "isl (parseInts vs)" by (rule Cons.IH)
    with Inr show ?thesis by (auto simp: isl_def)
  qed
qed

lemma parseInts_ok:
  "parseInts vs = Inr ns \<Longrightarrow> list_all2 (\<lambda>el n. Atoi el = Inr n) vs ns"
  by (induction vs arbitrary: ns) (auto split: sum.splits)

text \<open>
  C8. A field of type \<open>[]int\<close> whose resolved string has an element that
  \<open>strconv.Atoi\<close> rejects: \<open>Parse\<close> of \<open>src/env.go\<close> returns an error that wraps the
  \<open>Atoi\<close> error of such an element, which names the element, and the field is as it was
  before; no part of the sequence is assigned. The field is settable and annotated, the
  fields before it have been bound without error (\<open>pre\<close> becomes \<open>pre'\<close>), and the
  resolved string \<open>str\<close> is the variable's value or, when that is empty, the default.
\<close>

theorem Parse_int_slice_invalid_element:
  assumes pre: "ParseFields env True pre = (Return None, pre')"
    and fld: "f = SField name True (Some raw) (VSlice (TInt KInt) old)"
    and tag: "parseTag (Some raw) = (tag, True, None)"
    and str: "str = (if Getenv env (Env tag) = [] then Default tag else Getenv env (Env tag))"
    and resolved: "str \<noteq> [] \<or> Optional tag"
    and bad: "\<exists>el\<in>set (Split str). isl (Atoi el)"
  shows "\<exists>el k. el \<in> set (Split str) \<and> Atoi el = Inl (NumError ''Atoi'' el k) \<and>
           Parse env (Some (VPtr (VStruct (pre @ f # post)))) =
             (Return (Some (ErrorParsingSliceField name
                 (ErrorParsingIntSlice (NumError ''Atoi'' el k)))),
              Some (VPtr (VStruct (pre' @ f # post)))) \<and>
           error_class (ErrorParsingSliceField name
               (ErrorParsingIntSlice (NumError ''Atoi'' el k))) = ConversionError"
proof -
  from bad have "isl (parseInts (Split str))" by (rule parseInts_fails)
  then obtain ne where ne: "parseInts (Split str) = Inl ne" by (auto simp: isl_def)
  then obtain el where el: "el \<in> set (Split str)" "Atoi el = Inl ne"
    by (auto dest: parseInts_error)
  from el(2) have shape: "ne = NumError ''Atoi'' el (Err ne)" by (rule Atoi_error)
  have field: "ParseField env True f =
      (Return (Some (ErrorParsingSliceField name (ErrorParsingIntSlice ne))), Val f)"
    using tag resolved ne
    by (auto simp: ParseField_def CanSet_def fld str [symmetric] Let_def parseSlice_def)
  have "ParseFields env True (f # post) =
      (Return (Some (ErrorParsingSliceField name (ErrorParsingIntSlice ne))), f # post)"
    by (simp add: field)
  then have "ParseFields env True (pre @ f # post) =
      (Return (Some (ErrorParsingSliceField name (ErrorParsingIntSlice ne))), pre' @ f # post)"
    by (simp add: ParseFields_append pre)
  then have run: "Parse env (Some (VPtr (VStruct (pre @ f # post)))) =
      (Return (Some (ErrorParsingSliceField name (ErrorParsingIntSlice ne))),
       Some (VPtr (VStruct (pre' @ f # post))))"
    by (simp add: Parse_def)
  from shape obtain k where k: "ne = NumError ''Atoi'' el k" by blast
  with el run show ?thesis by (intro exI [of _ el] exI [of _ k]) simp
qed

text \<open>
  The theorem at the record of the test \<open>invalid int slice element\<close>:
  \<open>&struct{ Ports []int `env:"PORTS"` }{}\<close> with \<open>PORTS=8080,invalid,9000\<close>.
\<close>

theorem Parse_int_slice_invalid_element_witness:
  "Parse [''PORTS'' \<mapsto> ''8080,invalid,9000'']
     (Some (VPtr (VStruct [SField ''Ports'' True (Some ''PORTS'') (VSlice (TInt KInt) [])])))
   = (Return (Some (ErrorParsingSliceField ''Ports''
        (ErrorParsingIntSlice (NumError ''Atoi'' ''invalid'' ErrSyntax)))),
      Some (VPtr (VStruct [SField ''Ports'' True (Some ''PORTS'')
        (VSlice (TInt KInt) [] :: unit gval)])))"
proof -
  let ?env = "[''PORTS'' \<mapsto> ''8080,invalid,9000'']"
  let ?tag = "\<lparr>Env = ''PORTS'', Optional = False, Default = ''''\<rparr>"
  have pre: "ParseFields ?env True ([] :: unit sfield list) = (Return None, [])" by simp
  have tag: "parseTag (Some ''PORTS'') = (?tag, True, None)" by (simp add: env_go_defs)
  have str: "''8080,invalid,9000'' =
      (if Getenv ?env (Env ?tag) = [] then Default ?tag else Getenv ?env (Env ?tag))"
    by (simp add: Getenv_def LookupEnv_def)
  have bad: "\<exists>el\<in>set (Split ''8080,invalid,9000''). isl (Atoi el)"
    by (simp add: strconv_defs)
  from Parse_int_slice_invalid_element [OF pre refl tag str _ bad, of "''Ports''" "[]" "[]"]
  obtain el k where
    "el \<in> set (Split ''8080,invalid,9000'')" "Atoi el = Inl (NumError ''Atoi'' el k)"
    "Parse ?env (Some (VPtr (VStruct [SField ''Ports'' True (Some ''PORTS'') (VSlice (TInt KInt) [])])))
      = (Return (Some (ErrorParsingSliceField ''Ports'' (ErrorParsingIntSlice (NumError ''Atoi'' el k)))),
      Some (VPtr (VStruct [SField ''Ports'' True (Some ''PORTS'') (VSlice (TInt KInt) [] :: unit gval)])))"
    by auto
  moreover from this(1,2) have "el = ''invalid'' \<and> k = ErrSyntax"
    by (auto simp: strconv_defs)
  ultimately show ?thesis by simp
qed

text \<open>
  \<open>Parse\<close> of \<open>src/env.go\<close> reads the environment through \<open>os.Getenv\<close> only: against two
  tables on which \<open>Getenv\<close> agrees, such as one where a variable is unset and one where
  it is set to the empty string, it ends the same way and leaves the same record.
\<close>

lemma ParseField_Getenv:
  assumes "\<forall>k. Getenv env1 k = Getenv env2 k"
  shows "ParseField env1 a f = ParseField env2 a f"
proof -
  have eq: "Getenv env1 = Getenv env2" using assms by auto
  show ?thesis unfolding ParseField_def eq ..
qed

lemma ParseFields_Getenv:
  assumes "\<forall>k. Getenv env1 k = Getenv env2 k"
  shows "ParseFields env1 a fs = ParseFields env2 a fs"
  by (induction fs)
    (simp_all add: ParseField_Getenv [OF assms] split: prod.splits outcome.splits option.splits)

lemma Parse_Getenv:
  assumes "\<forall>k. Getenv env1 k = Getenv env2 k"
  shows "Parse env1 obj = Parse env2 obj"
proof -
  have eq: "ParseFields env1 = (ParseFields env2 :: bool \<Rightarrow> 'a sfield list \<Rightarrow> _)"
    by (intro ext ParseFields_Getenv assms)
  show ?thesis unfolding Parse_def eq ..
qed

text \<open>
  \<open>vField.Set\<close> panics for a slice field whose element type is a defined type, here
  \<open>&struct{ Hosts []MyString `env:"HOSTS"` }{}\<close> with \<open>type MyString string\<close> and
  \<open>HOSTS=a,b\<close>: the \<open>[]string\<close> of \<open>parseSlice\<close> is not assignable to it.
\<close>

lemma Parse_defined_element_type_panics:
  "Parse [''HOSTS'' \<mapsto> ''a,b''] (Some (VPtr (VStruct
      [SField ''Hosts'' True (Some ''HOSTS'') (VSlice (TDefined TString) [] :: unit gval)])))
   = (Panic, Some (VPtr (VStruct
      [SField ''Hosts'' True (Some ''HOSTS'') (VSlice (TDefined TString) [])])))"
  by (simp add: env_go_defs)

section \<open>Binding with src/unnamed/part_000\<close>

lemma parseStruct_loop_append:
  "parseStruct_loop env fl a (pre @ post) =
     (case parseStruct_loop env fl a pre of
        (Return None, pre') \<Rightarrow>
          (case parseStruct_loop env fl a post of (r, post') \<Rightarrow> (r, pre' @ post'))
      | (r, pre') \<Rightarrow> (r, pre' @ post))"
proof (induction pre)
  case Nil
  then show ?case by (simp split: prod.splits)
next
  case (Cons f pre)
  obtain name ex tg v where f: "f = SField name ex tg v" by (cases f)
  show ?case unfolding f append_Cons parseStruct_loop.simps Cons.IH
    by (simp split: prod.splits outcome.splits option.splits)
qed

lemma parseStruct_loop_leaf:
  "\<not> recursedInto v \<Longrightarrow>
   parseStruct_loop env fl a (SField name True tg v # fs) =
     (case parseLeaf env fl a name tg v of
        (Return None, v') \<Rightarrow>
          (case parseStruct_loop env fl a fs of
             (r, fs') \<Rightarrow> (r, SField name True tg v' # fs'))
      | (r, v') \<Rightarrow> (r, SField name True tg v' # fs))"
  by (cases v rule: recursedInto.cases) simp_all

lemma Parse_p0_leaf:
  assumes "parseStruct_loop env fl True pre = (Return None, pre')" and "\<not> recursedInto v"
  shows "Parse_p0 env fl (Some (VPtr (VStruct (pre @ SField name True tg v # post)))) =
     (case parseLeaf env fl True name tg v of
        (Return None, v') \<Rightarrow>
          (case parseStruct_loop env fl True post of
             (r, post') \<Rightarrow> (r, Some (VPtr (VStruct (pre' @ SField name True tg v' # post')))))
      | (r, v') \<Rightarrow> (r, Some (VPtr (VStruct (pre' @ SField name True tg v' # post)))))"
proof -
  have "parseStruct_loop env fl True (pre @ SField name True tg v # post) =
     (case parseLeaf env fl True name tg v of
        (Return None, v') \<Rightarrow>
          (case parseStruct_loop env fl True post of
             (r, post') \<Rightarrow> (r, pre' @ SField name True tg v' # post'))
      | (r, v') \<Rightarrow> (r, pre' @ SField name True tg v' # post))"
    unfolding parseStruct_loop_append assms(1) parseStruct_loop_leaf [OF assms(2)]
    by (simp split: prod.splits outcome.splits option.splits)
  then show ?thesis
    by (simp add: Parse_p0_def split: prod.splits outcome.splits option.splits)
qed

lemma setField_unchanged:
  "setField fl c v str = (r, v') \<Longrightarrow> r \<noteq> Return None \<Longrightarrow> v' = v"
  by (cases v) (auto simp: setField_def split: if_splits sum.splits)

lemma parseLeaf_set:
  assumes "parseTag_p0 tg = (tag, True, None)" and "env (Env tag) = Some y"
  shows "parseLeaf env fl c name tg v =
     (case setField fl c v y of
        (Return (Some err), v') \<Rightarrow> (Return (Some (FailedToSetField name err)), v')
      | (r, v') \<Rightarrow> (r, v'))"
  using assms by (simp add: parseLeaf_def LookupEnv_def)

lemma parseLeaf_unset:
  assumes "parseTag_p0 tg = (tag, True, None)" and "env (Env tag) = None"
  shows "parseLeaf env fl c name tg v =
     (if Optional tag then (Return None, v)
      else if Default tag \<noteq> [] then
        (case setField fl c v (Default tag) of
           (Return (Some err), v') \<Rightarrow> (Return (Some (FailedToSetField name err)), v')
         | (r, v') \<Rightarrow> (r, v'))
      else (Return (Some (RequiredNotSet (Env tag))), v))"
  using assms by (simp add: parseLeaf_def LookupEnv_def)

lemma parseLeaf_resolved:
  assumes "parseTag_p0 tg = (tag, True, None)" and "resolve_p0 env tag = Some str"
  shows "parseLeaf env fl c name tg v =
     (case setField fl c v str of
        (Return (Some err), v') \<Rightarrow> (Return (Some (FailedToSetField name err)), v')
      | (r, v') \<Rightarrow> (r, v'))"
proof (cases "env (Env tag)")
  case None
  with assms(2) have "\<not> Optional tag" "Default tag \<noteq> []" "str = Default tag"
    by (auto simp: resolve_p0_def split: if_splits)
  with None assms(1) show ?thesis by (simp add: parseLeaf_unset)
next
  case (Some y)
  with assms(2) have "str = y" by (simp add: resolve_p0_def)
  with Some assms(1) show ?thesis by (simp add: parseLeaf_set)
qed

lemma Parse_p0_resolved:
  assumes pre: "parseStruct_loop env fl True pre = (Return None, pre')"
    and leaf: "\<not> recursedInto v"
    and tag: "parseTag_p0 tg = (tag, True, None)"
    and res: "resolve_p0 env tag = Some str"
  shows "Parse_p0 env fl (Some (VPtr (VStruct (pre @ SField name True tg v # post)))) =
     (case setField fl True v str of
        (Return None, v') \<Rightarrow>
          (case parseStruct_loop env fl True post of
             (r, post') \<Rightarrow> (r, Some (VPtr (VStruct (pre' @ SField name True tg v' # post')))))
      | (Return (Some err), v') \<Rightarrow>
          (Return (Some (FailedToSetField name err)),
           Some (VPtr (VStruct (pre' @ SField name True tg v' # post))))
      | (Panic, v') \<Rightarrow> (Panic, Some (VPtr (VStruct (pre' @ SField name True tg v' # post)))))"
  unfolding Parse_p0_leaf [OF pre leaf] parseLeaf_resolved [OF tag res]
  by (simp split: prod.splits outcome.splits option.splits)

text \<open>
  A variable that is set wins over the default, also when it is set to the empty
  string: the field ends with the conversion of the variable's value, whatever happens
  to the fields after it. The example is
  \<open>&struct{ F string `env:"X,default=dflt"` }{}\<close> with \<open>X\<close> set to the empty string.
\<close>

lemma resolve_p0_set: "env (Env tag) = Some y \<Longrightarrow> resolve_p0 env tag = Some y"
  by (simp add: resolve_p0_def)

lemma Parse_p0_set_value_wins:
  assumes pre: "parseStruct_loop env fl True pre = (Return None, pre')"
    and leaf: "\<not> recursedInto v"
    and tag: "parseTag_p0 tg = (tag, True, None)"
    and var: "env (Env tag) = Some y"
    and conv: "setField fl True v y = (Return None, v')"
  shows "\<exists>r post'. Parse_p0 env fl (Some (VPtr (VStruct (pre @ SField name True tg v # post))))
           = (r, Some (VPtr (VStruct (pre' @ SField name True tg v' # post'))))"
  unfolding Parse_p0_resolved [OF pre leaf tag resolve_p0_set [where env = env, OF var]] conv
  by (simp split: prod.splits)

lemma Parse_p0_empty_value_example:
  "Parse_p0 [''X'' \<mapsto> ''''] noFloats (Some (VPtr (VStruct
      [SField ''F'' True (Some ''X,default=dflt'') (VString ''old'')])))
   = (Return None, Some (VPtr (VStruct
      [SField ''F'' True (Some ''X,default=dflt'') (VString '''')])))"
  by (simp add: part0_defs)

text \<open>
  An argument that is not a non-nil pointer to a struct is refused with an error of
  the kind \<open>InvalidInput\<close>, and is left as it was.
\<close>

lemma parseStruct_not_struct:
  "\<forall>fs. x \<noteq> VStruct fs \<Longrightarrow> parseStruct env fl a x = (Return (Some ValueMustBeStruct), x)"
  by (cases x) simp_all

lemma Parse_p0_invalid_input:
  assumes "\<forall>fs. obj \<noteq> Some (VPtr (VStruct fs))"
  shows "\<exists>e. Parse_p0 env fl obj = (Return (Some e), obj) \<and> error_class e = InvalidInput"
proof (cases obj)
  case None
  then show ?thesis by (simp add: Parse_p0_def)
next
  case (Some x)
  show ?thesis
  proof (cases "\<exists>p. x = VPtr p")
    case True
    then obtain p where p: "x = VPtr p" by blast
    with Some assms have "\<forall>fs. p \<noteq> VStruct fs" by simp
    then have "parseStruct env fl True p = (Return (Some ValueMustBeStruct), p)"
      by (rule parseStruct_not_struct)
    with Some p show ?thesis by (simp add: Parse_p0_def)
  next
    case False
    with Some show ?thesis by (cases x) (simp_all add: Parse_p0_def)
  qed
qed

text \<open>
  An optional field whose variable is unset is skipped: it keeps its value, whatever
  its type, and \<open>Parse\<close> goes on with the fields after it.
\<close>

lemma Parse_p0_optional_unset:
  assumes pre: "parseStruct_loop env fl True pre = (Return None, pre')"
    and leaf: "\<not> recursedInto v"
    and tag: "parseTag_p0 tg = (tag, True, None)"
    and opt: "Optional tag"
    and var: "env (Env tag) = None"
  shows "Parse_p0 env fl (Some (VPtr (VStruct (pre @ SField name True tg v # post)))) =
     (case parseStruct_loop env fl True post of
        (r, post') \<Rightarrow> (r, Some (VPtr (VStruct (pre' @ SField name True tg v # post')))))"
  unfolding Parse_p0_leaf [OF pre leaf] parseLeaf_unset [where env = env, OF tag var]
  using opt by simp

text \<open>
  A boolean field is assigned what \<open>strconv.ParseBool\<close> reads from the resolved
  string, and \<open>Parse\<close> fails with a conversion error when \<open>ParseBool\<close> rejects it.
\<close>

lemma Parse_p0_bool:
  assumes pre: "parseStruct_loop env fl True pre = (Return None, pre')"
    and tag: "parseTag_p0 tg = (tag, True, None)"
    and res: "resolve_p0 env tag = Some str"
  shows "Parse_p0 env fl (Some (VPtr (VStruct (pre @ SField name True tg (VBool b) # post)))) =
     (case ParseBool str of
        Inl ne \<Rightarrow>
          (Return (Some (FailedToSetField name (CannotParseBool str ne))),
           Some (VPtr (VStruct (pre' @ SField name True tg (VBool b) # post))))
      | Inr b' \<Rightarrow>
          (case parseStruct_loop env fl True post of
             (r, post') \<Rightarrow>
               (r, Some (VPtr (VStruct (pre' @ SField name True tg (VBool b') # post'))))))"
proof -
  have leaf: "\<not> recursedInto (VBool b :: 'a gval)" by simp
  show ?thesis
    unfolding Parse_p0_resolved [OF pre leaf tag res]
    by (simp add: setField_def split: sum.splits)
qed

lemma ParseBool_literals:
  "ParseBool s = Inr True \<longleftrightarrow> s \<in> {''1'', ''t'', ''T'', ''TRUE'', ''true'', ''True''}"
  "ParseBool s = Inr False \<longleftrightarrow> s \<in> {''0'', ''f'', ''F'', ''FALSE'', ''false'', ''False''}"
  by (auto simp: ParseBool_def)

text \<open>
  A sequence of strings is the resolved string split at the commas, the elements
  verbatim (joining them with commas gives the string back), and the empty string
  gives the empty sequence.
\<close>

lemma parseSlice_p0_strings:
  "parseSlice_p0 s TString = Inr (VSlice TString (if s = [] then [] else map VString (Split s)))"
  by (simp add: parseSlice_p0_def)

lemma parseSlice_p0_strings_examples:
  "parseSlice_p0 ''a,b,c'' TString = Inr (VSlice TString [VString ''a'', VString ''b'', VString ''c''])"
  "parseSlice_p0 '''' TString = Inr (VSlice TString [])"
  by (simp_all add: parseSlice_p0_def)

text \<open>
  \<open>field.Set\<close> panics for a slice field whose element type is a defined type and a
  non-empty string, here \<open>&struct{ Hosts []MyString `env:"HOSTS"` }{}\<close> with
  \<open>type MyString string\<close> and \<open>HOSTS=a,b\<close>; for the empty string \<open>parseSlice\<close> makes an
  empty \<open>[]MyString\<close>, which is assigned.
\<close>

lemma Parse_p0_defined_element_type_panics:
  "Parse_p0 [''HOSTS'' \<mapsto> ''a,b''] noFloats (Some (VPtr (VStruct
      [SField ''Hosts'' True (Some ''HOSTS'') (VSlice (TDefined TString) [])])))
   = (Panic, Some (VPtr (VStruct
      [SField ''Hosts'' True (Some ''HOSTS'') (VSlice (TDefined TString) [])])))"
  "Parse_p0 [''HOSTS'' \<mapsto> ''''] noFloats (Some (VPtr (VStruct
      [SField ''Hosts'' True (Some ''HOSTS'') (VSlice (TDefined TString) [VString ''x''])])))
   = (Return None, Some (VPtr (VStruct
      [SField ''Hosts'' True (Some ''HOSTS'') (VSlice (TDefined TString) [])])))"
  by (simp_all add: part0_defs)






text \<open>
  \<open>Parse\<close> of \<open>src/env.go\<close> fails in the same way for a slice whose element type is
  neither \<open>string\<close> nor \<open>int\<close>, with \<open>unsupported slice type\<close>. It has no error for a
  kind outside its \<open>switch\<close>: a field of type \<open>map\<close> is skipped although its variable
  is set.
\<close>

lemma Parse_unsupported_slice_type:
  assumes pre: "ParseFields env True pre = (Return None, pre')"
    and fld: "f = SField name True tg (VSlice t old)"
    and tag: "parseTag tg = (tag, True, None)"
    and str: "str = (if Getenv env (Env tag) = [] then Default tag else Getenv env (Env tag))"
    and resolved: "str \<noteq> [] \<or> Optional tag"
    and elem: "underlying t \<noteq> TString" "underlying t \<noteq> TInt KInt"
  shows "Parse env (Some (VPtr (VStruct (pre @ f # post)))) =
     (Return (Some (ErrorParsingSliceField name (UnsupportedSliceType t))),
      Some (VPtr (VStruct (pre' @ f # post))))"
proof -
  have "parseSlice str t = (Inl (UnsupportedSliceType t) :: error + 'a gval)"
    using elem by (simp add: parseSlice_def split: gotype.splits intkind.splits)
  then have "ParseField env True f =
      (Return (Some (ErrorParsingSliceField name (UnsupportedSliceType t))), Val f)"
    using tag resolved
    by (auto simp: ParseField_def CanSet_def fld str [symmetric] Let_def)
  then have "ParseFields env True (pre @ f # post) =
      (Return (Some (ErrorParsingSliceField name (UnsupportedSliceType t))), pre' @ f # post)"
    by (simp add: ParseFields_append pre)
  then show ?thesis by (simp add: Parse_def)
qed

lemma env_go_unsupported_kind_skipped:
  "Parse [''M'' \<mapsto> ''a=1''] (Some (VPtr (VStruct
      [SField ''M'' True (Some ''M'') (VOther KMap :: unit gval)])))
   = (Return None, Some (VPtr (VStruct [SField ''M'' True (Some ''M'') (VOther KMap)])))"
  by (simp add: env_go_defs)

text \<open>
  A field of type \<open>[]int\<close> whose resolved string is not empty and has an element
  that \<open>strconv.Atoi\<close> rejects: \<open>Parse\<close> of \<open>src/unnamed/part_000\<close> fails with
  \<open>cannot parse ... as int\<close> for such an element and leaves the field as it was.
\<close>

lemma parseInts_p0_fails:
  "\<exists>el\<in>set els. isl (Atoi el) \<Longrightarrow>
   \<exists>el k. el \<in> set els \<and> Atoi el = Inl (NumError ''Atoi'' el k) \<and>
          parseInts_p0 els = Inl (CannotParseInt el (NumError ''Atoi'' el k))"
proof (induction els)
  case Nil
  then show ?case by simp
next
  case (Cons x xs)
  show ?case
  proof (cases "Atoi x")
    case (Inl ne)
    then have ne: "ne = NumError ''Atoi'' x (Err ne)" by (rule Atoi_error)
    have "parseInts_p0 (x # xs) = Inl (CannotParseInt x ne)" using Inl by simp
    with Inl ne have "x \<in> set (x # xs) \<and> Atoi x = Inl (NumError ''Atoi'' x (Err ne)) \<and>
        parseInts_p0 (x # xs) = Inl (CannotParseInt x (NumError ''Atoi'' x (Err ne)))"
      by simp
    then show ?thesis by blast
  next
    case (Inr i)
    with Cons.prems have "\<exists>el\<in>set xs. isl (Atoi el)" by auto
    from Cons.IH [OF this] obtain el k where
      "el \<in> set xs" "Atoi el = Inl (NumError ''Atoi'' el k)"
      "parseInts_p0 xs = Inl (CannotParseInt el (NumError ''Atoi'' el k))" by blast
    with Inr show ?thesis by (intro exI [of _ el] exI [of _ k]) simp
  qed
qed

lemma Parse_p0_int_slice_invalid_element:
  assumes pre: "parseStruct_loop env fl True pre = (Return None, pre')"
    and tag: "parseTag_p0 tg = (tag, True, None)"
    and res: "resolve_p0 env tag = Some str"
    and nonempty: "str \<noteq> []"
    and bad: "\<exists>el\<in>set (Split str). isl (Atoi el)"
  shows "\<exists>el k. el \<in> set (Split str) \<and> Atoi el = Inl (NumError ''Atoi'' el k) \<and>
     Parse_p0 env fl
       (Some (VPtr (VStruct (pre @ SField name True tg (VSlice (TInt KInt) old) # post)))) =
       (Return (Some (FailedToSetField name (CannotParseInt el (NumError ''Atoi'' el k)))),
        Some (VPtr (VStruct (pre' @ SField name True tg (VSlice (TInt KInt) old) # post))))"
proof -
  from parseInts_p0_fails [OF bad] obtain el k where el:
    "el \<in> set (Split str)" "Atoi el = Inl (NumError ''Atoi'' el k)"
    "parseInts_p0 (Split str) = Inl (CannotParseInt el (NumError ''Atoi'' el k))" by blast
  have leaf: "\<not> recursedInto (VSlice (TInt KInt) old :: 'a gval)" by simp
  have "setField fl True (VSlice (TInt KInt) old) str =
      (Return (Some (CannotParseInt el (NumError ''Atoi'' el k))), VSlice (TInt KInt) old)"
    using nonempty el(3) by (simp add: setField_def parseSlice_p0_def Let_def)
  then have "Parse_p0 env fl
       (Some (VPtr (VStruct (pre @ SField name True tg (VSlice (TInt KInt) old) # post)))) =
       (Return (Some (FailedToSetField name (CannotParseInt el (NumError ''Atoi'' el k)))),
        Some (VPtr (VStruct (pre' @ SField name True tg (VSlice (TInt KInt) old) # post))))"
    unfolding Parse_p0_resolved [OF pre leaf tag res] by simp
  with el(1,2) show ?thesis by blast
qed

end
